theory Spec2Isabelle
  imports Main "HOL-Library.Sublist"
begin

section \<open>Data model\<close>

text \<open>
  A path is the list of its components below the filesystem root (all paths are resolved to
  absolute form by \<open>main\<close> before use, so \<open>[]\<close> is the root directory). The filesystem is
  an association list from paths to entries; the first binding of a path is the one in force.
\<close>

type_synonym path = "string list"

datatype entry = RegFile string | Directory

type_synonym filesystem = "(path \<times> entry) list"

text \<open>
  The exceptions the program can meet. \<open>LibError\<close> is whatever the PDF library raises when a
  document cannot be opened, with its message; the others are the Python and OS errors of
  \<open>relative_to\<close>, \<open>mkdir\<close> and \<open>open\<close>.
\<close>

datatype exn =
    LibError string
  | ValueError path path
  | FileExistsError path
  | NotADirectoryError path
  | IsADirectoryError path
  | FileNotFoundError path

text \<open>
  The world a task runs in: the filesystem and the document handles currently open.
\<close>

record world =
  fsys :: filesystem
  open_docs :: "path list"

text \<open>
  A document of the PDF library is the list of its pages; a page is the value its
  \<open>get_text("text")\<close> returns (\<open>None\<close> for a falsy non-string result). The library is a
  parameter \<open>parse\<close>: what opening yields for whatever is found at the path.
\<close>

type_synonym document = "string option list"

type_synonym pdflib = "entry option \<Rightarrow> exn + document"

type_synonym task_result = "path \<times> bool \<times> string option"

section \<open>Strings and paths\<close>

definition newline :: char where
  "newline = CHR 0x0A"

definition nl :: string where
  "nl = [newline]"

definition digit_char :: "nat \<Rightarrow> char" where
  "digit_char d = char_of (48 + d)"

function str_nat :: "nat \<Rightarrow> string" where
  "str_nat n = (if n < 10 then [digit_char n] else str_nat (n div 10) @ [digit_char (n mod 10)])"
  by pat_completeness auto
termination
  by (relation "measure id") auto

declare str_nat.simps [simp del]

definition path_str :: "path \<Rightarrow> string" where
  "path_str p = (if p = [] then ''/'' else concat (map (\<lambda>c. ''/'' @ c) p))"

fun str_exn :: "exn \<Rightarrow> string" where
  "str_exn (LibError m) = m"
| "str_exn (ValueError p r) =
     [CHR 0x27] @ path_str p @ [CHR 0x27] @ '' is not in the subpath of '' @
     [CHR 0x27] @ path_str r @ [CHR 0x27]"
| "str_exn (FileExistsError p) =
     ''[Errno 17] File exists: '' @ [CHR 0x27] @ path_str p @ [CHR 0x27]"
| "str_exn (NotADirectoryError p) =
     ''[Errno 20] Not a directory: '' @ [CHR 0x27] @ path_str p @ [CHR 0x27]"
| "str_exn (IsADirectoryError p) =
     ''[Errno 21] Is a directory: '' @ [CHR 0x27] @ path_str p @ [CHR 0x27]"
| "str_exn (FileNotFoundError p) =
     ''[Errno 2] No such file or directory: '' @ [CHR 0x27] @ path_str p @ [CHR 0x27]"

text \<open>
  \<open>str.strip()\<close>: the whitespace characters of Python below code point 256.
\<close>

definition is_space :: "char \<Rightarrow> bool" where
  "is_space c = (let n = (of_char c :: nat) in
     (9 \<le> n \<and> n \<le> 13) \<or> (28 \<le> n \<and> n \<le> 32) \<or> n = 133 \<or> n = 160)"

definition strip :: "string \<Rightarrow> string" where
  "strip s = rev (dropWhile is_space (rev (dropWhile is_space s)))"

definition lower_char :: "char \<Rightarrow> char" where
  "lower_char c = (let n = (of_char c :: nat) in
     if 65 \<le> n \<and> n \<le> 90 then char_of (n + 32) else c)"

definition lower :: "string \<Rightarrow> string" where
  "lower s = map lower_char s"

text \<open>\<open>PurePath.name\<close>, \<open>.suffix\<close>, \<open>.stem\<close> and \<open>.parent\<close>.\<close>

definition py_name :: "path \<Rightarrow> string" where
  "py_name p = (if p = [] then [] else last p)"

definition rfind_dot :: "string \<Rightarrow> nat option" where
  "rfind_dot s = (if CHR ''.'' \<in> set s
     then Some (length s - 1 - length (takeWhile (\<lambda>x. x \<noteq> CHR ''.'') (rev s)))
     else None)"

definition suffix_of :: "path \<Rightarrow> string" where
  "suffix_of p = (let name = py_name p in
     case rfind_dot name of
       None \<Rightarrow> []
     | Some i \<Rightarrow> if 0 < i \<and> i < length name - 1 then drop i name else [])"

definition stem :: "path \<Rightarrow> string" where
  "stem p = (let name = py_name p in
     case rfind_dot name of
       None \<Rightarrow> name
     | Some i \<Rightarrow> if 0 < i \<and> i < length name - 1 then take i name else name)"

definition parent :: "path \<Rightarrow> path" where
  "parent p = butlast p"

definition relative_to :: "path \<Rightarrow> path \<Rightarrow> exn + path" where
  "relative_to p root =
     (if prefix root p then Inr (drop (length root) p) else Inl (ValueError p root))"

section \<open>Filesystem operations\<close>

definition stat :: "filesystem \<Rightarrow> path \<Rightarrow> entry option" where
  "stat fs p = (if p = [] then Some Directory else map_of fs p)"

definition is_file :: "filesystem \<Rightarrow> path \<Rightarrow> bool" where
  "is_file fs p = (case stat fs p of Some (RegFile c) \<Rightarrow> True | _ \<Rightarrow> False)"

definition is_dir :: "filesystem \<Rightarrow> path \<Rightarrow> bool" where
  "is_dir fs p = (case stat fs p of Some Directory \<Rightarrow> True | _ \<Rightarrow> False)"

text \<open>
  Resolution of the directory part of a path, as the kernel walks it: the first proper
  prefix that is missing gives \<open>ENOENT\<close>, the first that is a regular file \<open>ENOTDIR\<close>.
\<close>

fun walk :: "filesystem \<Rightarrow> path \<Rightarrow> path \<Rightarrow> path \<Rightarrow> exn option" where
  "walk fs full done [] = None"
| "walk fs full done [c] = None"
| "walk fs full done (c # d # rest) =
     (case stat fs (done @ [c]) of
        None \<Rightarrow> Some (FileNotFoundError full)
      | Some (RegFile x) \<Rightarrow> Some (NotADirectoryError full)
      | Some Directory \<Rightarrow> walk fs full (done @ [c]) (d # rest))"

definition resolve_parent :: "filesystem \<Rightarrow> path \<Rightarrow> exn option" where
  "resolve_parent fs p = walk fs p [] p"

definition os_mkdir :: "filesystem \<Rightarrow> path \<Rightarrow> exn + filesystem" where
  "os_mkdir fs p =
     (case resolve_parent fs p of
        Some e \<Rightarrow> Inl e
      | None \<Rightarrow> (case stat fs p of
                   Some x \<Rightarrow> Inl (FileExistsError p)
                 | None \<Rightarrow> Inr (fs @ [(p, Directory)])))"

text \<open>
  \<open>Path.mkdir(parents=True, exist_ok=True)\<close> as pathlib writes it: try \<open>os.mkdir\<close>; on
  \<open>FileNotFoundError\<close> make the parent the same way and then the directory itself without
  \<open>parents\<close>; on any other \<open>OSError\<close> re-raise unless the path is a directory. The
  filesystem is returned also when an exception is raised, with the parents made so far.
\<close>

definition mkdir_exist_ok :: "filesystem \<Rightarrow> path \<Rightarrow> exn + unit \<Rightarrow> (exn + unit) \<times> filesystem" where
  "mkdir_exist_ok fs p r =
     (case r of
        Inr u \<Rightarrow> (Inr (), fs)
      | Inl e \<Rightarrow> if is_dir fs p then (Inr (), fs) else (Inl e, fs))"

definition mkdir_noparents :: "filesystem \<Rightarrow> path \<Rightarrow> (exn + unit) \<times> filesystem" where
  "mkdir_noparents fs p =
     (case os_mkdir fs p of
        Inr fs' \<Rightarrow> (Inr (), fs')
      | Inl (FileNotFoundError q) \<Rightarrow> (Inl (FileNotFoundError q), fs)
      | Inl e \<Rightarrow> mkdir_exist_ok fs p (Inl e))"

function mkdir_parents :: "filesystem \<Rightarrow> path \<Rightarrow> (exn + unit) \<times> filesystem" where
  "mkdir_parents fs p =
     (case os_mkdir fs p of
        Inr fs' \<Rightarrow> (Inr (), fs')
      | Inl (FileNotFoundError q) \<Rightarrow>
          (if parent p = p then (Inl (FileNotFoundError q), fs)
           else (case mkdir_parents fs (parent p) of
                   (Inl e, fs') \<Rightarrow> (Inl e, fs')
                 | (Inr u, fs') \<Rightarrow> mkdir_noparents fs' p))
      | Inl e \<Rightarrow> mkdir_exist_ok fs p (Inl e))"
  by pat_completeness auto
termination
  by (relation "measure (\<lambda>(fs, p). length p)") (auto simp: parent_def intro: Nat.diff_less)

declare mkdir_parents.simps [simp del]

text \<open>
  \<open>open(out_file, "w")\<close> followed by the writes and the close at the end of the \<open>with\<close>
  block: the file is created or truncated, and holds what was written.
\<close>

definition open_w :: "filesystem \<Rightarrow> path \<Rightarrow> exn + filesystem" where
  "open_w fs p =
     (case resolve_parent fs p of
        Some e \<Rightarrow> Inl e
      | None \<Rightarrow> (case stat fs p of
                   Some Directory \<Rightarrow> Inl (IsADirectoryError p)
                 | Some (RegFile c) \<Rightarrow> Inr (map (\<lambda>(q, x). if q = p then (q, RegFile []) else (q, x)) fs)
                 | None \<Rightarrow> Inr (fs @ [(p, RegFile [])])))"

definition f_write :: "filesystem \<Rightarrow> path \<Rightarrow> string \<Rightarrow> filesystem" where
  "f_write fs p s =
     map (\<lambda>(q, x). if q = p then (case x of RegFile c \<Rightarrow> (q, RegFile (c @ s)) | Directory \<Rightarrow> (q, x))
                   else (q, x)) fs"

section \<open>Text extractor\<close>

text \<open>
  \<open>fitz.open\<close> raises, or yields the document and a new open handle. The loop appends, for
  each page in document order, \<open>(page.get_text("text") or "").strip()\<close>; then the handle
  is closed.
\<close>

definition text_or_empty :: "string option \<Rightarrow> string" where
  "text_or_empty t = (case t of None \<Rightarrow> [] | Some s \<Rightarrow> if s = [] then [] else s)"

fun extract_loop :: "document \<Rightarrow> string list \<Rightarrow> string list" where
  "extract_loop [] pages = pages"
| "extract_loop (page # rest) pages = extract_loop rest (pages @ [strip (text_or_empty page)])"

definition extract_text_ignore_overlays ::
    "pdflib \<Rightarrow> world \<Rightarrow> path \<Rightarrow> (exn + string list) \<times> world" where
  "extract_text_ignore_overlays parse w pdf_path =
     (case parse (stat (fsys w) pdf_path) of
        Inl e \<Rightarrow> (Inl e, w)
      | Inr doc \<Rightarrow>
          (let w1 = w\<lparr>open_docs := pdf_path # open_docs w\<rparr>;
               pages = extract_loop doc [];
               w2 = w1\<lparr>open_docs := remove1 pdf_path (open_docs w1)\<rparr>
           in (Inr pages, w2)))"

section \<open>Per-file task\<close>

definition any_py :: "string list \<Rightarrow> bool" where
  "any_py pages = list_ex (\<lambda>s. s \<noteq> []) pages"

definition page_header :: "nat \<Rightarrow> string" where
  "page_header i = nl @ ''--- PAGE '' @ str_nat i @ '' ---'' @ nl"

fun write_pages :: "filesystem \<Rightarrow> path \<Rightarrow> nat \<Rightarrow> string list \<Rightarrow> filesystem" where
  "write_pages fs f i [] = fs"
| "write_pages fs f i (t # ts) =
     write_pages (f_write (f_write fs f (page_header i)) f (t @ nl)) f (Suc i) ts"

definition failure :: "path \<Rightarrow> exn \<Rightarrow> task_result" where
  "failure pdf_path e = (pdf_path, False, Some (str_exn e))"

definition process_pdf ::
    "pdflib \<Rightarrow> world \<Rightarrow> path \<Rightarrow> path \<Rightarrow> path \<Rightarrow> task_result \<times> world" where
  "process_pdf parse w pdf_path input_root output_root =
     (case extract_text_ignore_overlays parse w pdf_path of
        (Inl e, w1) \<Rightarrow> (failure pdf_path e, w1)
      | (Inr pages, w1) \<Rightarrow>
          if \<not> any_py pages then ((pdf_path, False, Some ''No extractable text''), w1)
          else (case relative_to pdf_path input_root of
                  Inl e \<Rightarrow> (failure pdf_path e, w1)
                | Inr relative_path \<Rightarrow>
                    (let out_dir = output_root @ parent relative_path in
                     case mkdir_parents (fsys w1) out_dir of
                       (Inl e, fs1) \<Rightarrow> (failure pdf_path e, w1\<lparr>fsys := fs1\<rparr>)
                     | (Inr u, fs1) \<Rightarrow>
                         (let out_file = out_dir @ [stem pdf_path @ ''_RECOVERED.txt''] in
                          case open_w fs1 out_file of
                            Inl e \<Rightarrow> (failure pdf_path e, w1\<lparr>fsys := fs1\<rparr>)
                          | Inr fs2 \<Rightarrow>
                              ((pdf_path, True, None),
                               w1\<lparr>fsys := write_pages fs2 out_file 1 pages\<rparr>)))))"

section \<open>PDF locator\<close>

text \<open>
  \<open>path.rglob("*.pdf")\<close> on a POSIX system: every entry below \<open>root\<close>, reached through
  directories only, whose name ends with \<open>.pdf\<close> (the pattern is matched case-sensitively,
  and \<open>*\<close> also matches the empty string and a leading dot). A root that is not a
  directory yields nothing.
\<close>

definition matches_star_pdf :: "string \<Rightarrow> bool" where
  "matches_star_pdf name = suffix ''.pdf'' name"

definition reachable :: "filesystem \<Rightarrow> path \<Rightarrow> path \<Rightarrow> bool" where
  "reachable fs root p =
     (strict_prefix root p \<and> list_all (\<lambda>k. is_dir fs (take k p)) [length root..<length p])"

definition rglob_pdf :: "filesystem \<Rightarrow> path \<Rightarrow> path list" where
  "rglob_pdf fs root =
     (if is_dir fs root
      then filter (\<lambda>p. reachable fs root p \<and> matches_star_pdf (py_name p)) (remdups (map fst fs))
      else [])"

definition find_pdfs :: "filesystem \<Rightarrow> path \<Rightarrow> path list" where
  "find_pdfs fs path =
     (if is_file fs path \<and> lower (suffix_of path) = ''.pdf'' then [path]
      else rglob_pdf fs path)"

section \<open>Batch dispatcher\<close>

text \<open>
  The worker pool is modelled by running the tasks one after the other, in the order of the
  located PDFs. \<open>main\<close> returns the exit status, the lines printed to standard output, and
  the world it leaves. An exception that escapes \<open>main\<close> gives status 1.
\<close>

fun run_tasks :: "pdflib \<Rightarrow> world \<Rightarrow> path list \<Rightarrow> path \<Rightarrow> path \<Rightarrow> task_result list \<times> world" where
  "run_tasks parse w [] input_root output_root = ([], w)"
| "run_tasks parse w (pdf # pdfs) input_root output_root =
     (case process_pdf parse w pdf input_root output_root of
        (r, w1) \<Rightarrow> (case run_tasks parse w1 pdfs input_root output_root of
                      (rs, w2) \<Rightarrow> (r # rs, w2)))"

definition str_int :: "int \<Rightarrow> string" where
  "str_int i = (if i < 0 then ''-'' @ str_nat (nat (- i)) else str_nat (nat i))"

definition str_opt :: "string option \<Rightarrow> string" where
  "str_opt m = (case m of None \<Rightarrow> ''None'' | Some s \<Rightarrow> s)"

definition fail_lines :: "task_result list \<Rightarrow> string list" where
  "fail_lines results =
     map (\<lambda>(pdf, ok, err). ''[FAIL] '' @ path_str pdf @ '': '' @ str_opt err)
         (filter (\<lambda>(pdf, ok, err). \<not> ok) results)"

definition summary :: "task_result list \<Rightarrow> string list" where
  "summary results =
     (let success = length (filter (\<lambda>(pdf, ok, err). ok) results);
          failed = length results - success
      in [nl @ ''=== SUMMARY ==='',
          ''Processed: '' @ str_nat (length results),
          ''Recovered: '' @ str_nat success,
          ''Failed: '' @ str_nat failed] @ fail_lines results)"

definition main :: "pdflib \<Rightarrow> world \<Rightarrow> path \<Rightarrow> path \<Rightarrow> int \<Rightarrow> nat \<times> string list \<times> world" where
  "main parse w input_root output_root threads =
     (case mkdir_parents (fsys w) output_root of
        (Inl e, fs1) \<Rightarrow> (1, [], w\<lparr>fsys := fs1\<rparr>)
      | (Inr u, fs1) \<Rightarrow>
          (let w1 = w\<lparr>fsys := fs1\<rparr>;
               pdfs = find_pdfs fs1 input_root
           in if pdfs = [] then (0, [''No PDFs found.''], w1)
              else (let banner = [''[*] Found '' @ str_nat (length pdfs) @ '' PDFs'',
                                  ''[*] Threads: '' @ str_int threads,
                                  ''[*] Output root: '' @ path_str output_root]
                    in if threads \<le> 0 then (1, banner, w1)
                       else (case run_tasks parse w1 pdfs input_root output_root of
                               (results, w2) \<Rightarrow> (0, banner @ summary results, w2)))))"

section \<open>Derived notions used in the statements\<close>

text \<open>
  What the write loop of \<open>process_pdf\<close> leaves in the file: for page \<open>i\<close>, the header
  written by \<open>f.write(f"\n--- PAGE {i} ---\n")\<close>, then the text and a newline.
\<close>

fun render :: "nat \<Rightarrow> string list \<Rightarrow> string" where
  "render i [] = []"
| "render i (t # ts) = page_header i @ t @ nl @ render (Suc i) ts"

definition file_content :: "filesystem \<Rightarrow> path \<Rightarrow> string option" where
  "file_content fs p = (case stat fs p of Some (RegFile c) \<Rightarrow> Some c | _ \<Rightarrow> None)"

text \<open>The path \<open>output_root / relative_path.parent / (stem + "_RECOVERED.txt")\<close>.\<close>

definition out_path :: "path \<Rightarrow> path \<Rightarrow> path \<Rightarrow> path" where
  "out_path pdf_path input_root output_root =
     output_root @ parent (drop (length input_root) pdf_path) @
     [stem pdf_path @ ''_RECOVERED.txt'']"

text \<open>
  \<open>dirs_added fs fs'\<close>: the second filesystem is the first with directories created at
  paths where nothing was. \<open>is_oserror\<close>: the exception comes from the operating system.
\<close>

definition dirs_added :: "filesystem \<Rightarrow> filesystem \<Rightarrow> bool" where
  "dirs_added fs fs' = (\<forall>q. stat fs' q = stat fs q \<or> (stat fs q = None \<and> stat fs' q = Some Directory))"

fun is_oserror :: "exn \<Rightarrow> bool" where
  "is_oserror (LibError m) = False"
| "is_oserror (ValueError p r) = False"
| "is_oserror e = True"

text \<open>
  \<open>append_to\<close> and \<open>truncate_at\<close>: what \<open>f.write\<close> and \<open>open(..., "w")\<close> do to the entry at a path.
\<close>

definition append_to :: "path \<Rightarrow> path \<Rightarrow> string \<Rightarrow> entry \<Rightarrow> entry" where
  "append_to q f s x =
     (if q = f then (case x of RegFile c \<Rightarrow> RegFile (c @ s) | Directory \<Rightarrow> x) else x)"

definition truncate_at :: "path \<Rightarrow> path \<Rightarrow> entry \<Rightarrow> entry" where
  "truncate_at q f x = (if q = f then RegFile [] else x)"

definition empty_world :: world where
  "empty_world = \<lparr>fsys = [], open_docs = []\<rparr>"

subsection \<open>A concrete scenario\<close>

text \<open>
  An input directory \<open>/in\<close> with \<open>a.pdf\<close> (two pages, the first with text), \<open>b.pdf\<close>
  (one page without text), \<open>c.pdf\<close> (not a PDF), a directory named \<open>d.pdf\<close> and
  \<open>e.PDF\<close>; the library recognises the stored contents \<open>A\<close> and \<open>B\<close> only.
\<close>

definition demo_lib :: pdflib where
  "demo_lib e =
     (case e of
        Some (RegFile c) \<Rightarrow>
          (if c = ''A'' then Inr [Some '' CONFIDENTIAL '', Some []]
           else if c = ''B'' then Inr [None]
           else Inl (LibError ''Failed to open file''))
      | Some Directory \<Rightarrow> Inl (LibError ''is no file'')
      | None \<Rightarrow> Inl (LibError ''no such file''))"

definition demo_fs :: filesystem where
  "demo_fs =
     [([''in''], Directory),
      ([''in'', ''a.pdf''], RegFile ''A''),
      ([''in'', ''b.pdf''], RegFile ''B''),
      ([''in'', ''c.pdf''], RegFile ''C''),
      ([''in'', ''d.pdf''], Directory),
      ([''in'', ''e.PDF''], RegFile ''A'')]"

definition demo_world :: world where
  "demo_world = \<lparr>fsys = demo_fs, open_docs = []\<rparr>"

section \<open>Properties of the text extractor\<close>

lemma extract_loop_eq: "extract_loop doc acc = acc @ map (\<lambda>t. strip (text_or_empty t)) doc"
  by (induction doc arbitrary: acc) auto

lemma extract_ok:
  "parse (stat (fsys w) p) = Inr doc \<Longrightarrow>
   extract_text_ignore_overlays parse w p = (Inr (map (\<lambda>t. strip (text_or_empty t)) doc), w)"
  by (simp add: extract_text_ignore_overlays_def extract_loop_eq Let_def)

lemma extract_fail:
  "parse (stat (fsys w) p) = Inl e \<Longrightarrow> extract_text_ignore_overlays parse w p = (Inl e, w)"
  by (simp add: extract_text_ignore_overlays_def)

lemma extract_world: "snd (extract_text_ignore_overlays parse w p) = w"
  by (cases "parse (stat (fsys w) p)") (simp_all add: extract_ok extract_fail)




section \<open>Properties of directory creation\<close>

lemma dirs_added_refl: "dirs_added fs fs"
  by (simp add: dirs_added_def)

lemma dirs_added_trans: "dirs_added a b \<Longrightarrow> dirs_added b c \<Longrightarrow> dirs_added a c"
  unfolding dirs_added_def by (metis option.distinct(1))

lemma walk_oserror: "walk fs full done p = Some e \<Longrightarrow> is_oserror e"
  by (induction fs full "done" p rule: walk.induct) (auto split: option.splits entry.splits)

lemma os_mkdir_Inr:
  "os_mkdir fs p = Inr fs' \<Longrightarrow> fs' = fs @ [(p, Directory)] \<and> stat fs p = None \<and> p \<noteq> []"
  by (auto simp: os_mkdir_def stat_def split: option.splits)

lemma os_mkdir_Inl: "os_mkdir fs p = Inl e \<Longrightarrow> is_oserror e"
  by (auto simp: os_mkdir_def resolve_parent_def split: option.splits dest: walk_oserror)

lemma stat_append_new:
  "stat fs p = None \<Longrightarrow> stat (fs @ [(p, x)]) q = (if q = p then Some x else stat fs q)"
  by (auto simp: stat_def map_add_def split: option.splits if_splits)

lemma os_mkdir_dirs_added:
  assumes "os_mkdir fs p = Inr fs'"
  shows "dirs_added fs fs'"
proof -
  from os_mkdir_Inr [OF assms]
  have f: "fs' = fs @ [(p, Directory)]" and n: "stat fs p = None" by simp_all
  show ?thesis
    unfolding dirs_added_def f
  proof
    fix q
    show "stat (fs @ [(p, Directory)]) q = stat fs q \<or>
          stat fs q = None \<and> stat (fs @ [(p, Directory)]) q = Some Directory"
      using n by (cases "q = p") (simp_all add: stat_append_new)
  qed
qed

lemma mkdir_noparents_props:
  assumes "mkdir_noparents fs p = (r, fs')"
  shows "dirs_added fs fs' \<and> (\<forall>e. r = Inl e \<longrightarrow> is_oserror e)"
  using assms
  by (auto simp: mkdir_noparents_def mkdir_exist_ok_def dirs_added_refl
           split: sum.splits exn.splits if_splits
           dest: os_mkdir_dirs_added os_mkdir_Inl)

lemma mkdir_parents_props:
  "mkdir_parents fs p = (r, fs') \<Longrightarrow> dirs_added fs fs' \<and> (\<forall>e. r = Inl e \<longrightarrow> is_oserror e)"
proof (induction fs p arbitrary: r fs' rule: mkdir_parents.induct)
  case (1 fs p)
  show ?case
  proof (cases "os_mkdir fs p")
    case (Inr fs1)
    with "1.prems" show ?thesis
      by (auto simp: mkdir_parents.simps [of fs p] dest: os_mkdir_dirs_added)
  next
    case (Inl e)
    note oe = os_mkdir_Inl [OF Inl]
    show ?thesis
    proof (cases "(\<exists>q. e = FileNotFoundError q) \<and> parent p \<noteq> p")
      case False
      with Inl oe "1.prems" show ?thesis
        by (auto simp: mkdir_parents.simps [of fs p] mkdir_exist_ok_def dirs_added_refl
                 split: exn.splits if_splits)
    next
      case True
      then obtain q where e: "e = FileNotFoundError q" and pp: "parent p \<noteq> p" by auto
      obtain r1 fs1 where m: "mkdir_parents fs (parent p) = (r1, fs1)" by force
      from "1.IH" [OF Inl e pp m]
      have ih: "dirs_added fs fs1" "\<forall>e. r1 = Inl e \<longrightarrow> is_oserror e" by auto
      show ?thesis
      proof (cases r1)
        case (Inl e1)
        with "1.prems" \<open>os_mkdir fs p = Inl e\<close> e pp m ih show ?thesis
          by (simp add: mkdir_parents.simps [of fs p])
      next
        case (Inr u)
        with "1.prems" \<open>os_mkdir fs p = Inl e\<close> e pp m
        have "mkdir_noparents fs1 p = (r, fs')"
          by (simp add: mkdir_parents.simps [of fs p])
        from mkdir_noparents_props [OF this]
        have np: "dirs_added fs1 fs'" "\<forall>e. r = Inl e \<longrightarrow> is_oserror e" by simp_all
        from dirs_added_trans [OF ih(1) np(1)] np(2) show ?thesis by simp
      qed
    qed
  qed
qed

lemma dirs_added_file_content:
  assumes "dirs_added fs fs'"
  shows "file_content fs' = file_content fs"
proof
  fix q
  from assms
  have "stat fs' q = stat fs q \<or> (stat fs q = None \<and> stat fs' q = Some Directory)"
    by (simp add: dirs_added_def)
  then show "file_content fs' q = file_content fs q"
    by (auto simp: file_content_def)
qed

lemma oserror_message: "is_oserror e \<Longrightarrow> str_exn e \<noteq> ''No extractable text''"
  by (cases e) auto

section \<open>Properties of writing and of the per-file task\<close>

lemma map_of_keyed:
  "map_of (map (\<lambda>(q, x). (q, g q x)) fs) k = map_option (g k) (map_of fs k)"
  by (induction fs) auto

lemma f_write_keyed: "f_write fs f s = map (\<lambda>(q, x). (q, append_to q f s x)) fs"
proof -
  have "(\<lambda>(q, x). if q = f then (case x of RegFile c \<Rightarrow> (q, RegFile (c @ s)) | Directory \<Rightarrow> (q, x))
                   else (q, x)) = (\<lambda>(q, x). (q, append_to q f s x))"
    by (rule ext) (simp add: append_to_def split: prod.splits entry.splits)
  then show ?thesis by (simp add: f_write_def)
qed

lemma append_to_root: "append_to [] f s Directory = Directory"
  by (simp add: append_to_def)

lemma stat_f_write: "stat (f_write fs f s) q = map_option (append_to q f s) (stat fs q)"
  by (simp add: stat_def f_write_keyed map_of_keyed append_to_root)

lemma append_to_twice: "append_to q f t (append_to q f s x) = append_to q f (s @ t) x"
  by (cases x) (simp_all add: append_to_def)

lemma append_to_Nil: "append_to q f [] x = x"
  by (cases x) (simp_all add: append_to_def)

lemma stat_write_pages:
  "stat (write_pages fs f i ts) q = map_option (append_to q f (render i ts)) (stat fs q)"
proof (induction ts arbitrary: fs i)
  case Nil
  have "append_to q f [] = (\<lambda>x. x)" by (rule ext) (rule append_to_Nil)
  then show ?case by (simp add: option.map_ident)
next
  case (Cons t ts)
  have "append_to q f (render (Suc i) ts) \<circ> (append_to q f (t @ nl) \<circ> append_to q f (page_header i))
          = append_to q f (render i (t # ts))"
    by (rule ext) (simp add: append_to_twice)
  then show ?case
    by (simp add: Cons.IH stat_f_write option.map_comp)
qed

lemma stat_open_w:
  assumes "open_w fs p = Inr fs2"
  shows "stat fs2 q = (if q = p then Some (RegFile []) else stat fs q)"
proof (cases "stat fs p")
  case None
  with assms have f: "fs2 = fs @ [(p, RegFile [])]"
    by (simp add: open_w_def split: option.splits)
  show ?thesis unfolding f using None by (simp add: stat_append_new)
next
  case (Some x)
  with assms obtain c where x: "x = RegFile c"
    and f: "fs2 = map (\<lambda>(q, x). (q, truncate_at q p x)) fs"
  proof (cases x)
    case (RegFile c)
    have "(\<lambda>(q, x). if q = p then (q, RegFile []) else (q, x)) = (\<lambda>(q, x). (q, truncate_at q p x))"
      by (rule ext) (simp add: truncate_at_def split: prod.splits)
    with RegFile Some assms that show ?thesis
      by (simp add: open_w_def split: option.splits)
  next
    case Directory
    with Some assms show ?thesis by (simp add: open_w_def split: option.splits)
  qed
  have pne: "p \<noteq> []" using assms Some x by (auto simp: stat_def split: if_splits)
  show ?thesis
    using Some x pne by (auto simp: f stat_def map_of_keyed truncate_at_def option.map_ident)
qed

lemma open_w_Inl: "open_w fs p = Inl e \<Longrightarrow> is_oserror e"
  by (auto simp: open_w_def resolve_parent_def split: option.splits entry.splits dest: walk_oserror)

lemma written_content:
  assumes "open_w fs1 f = Inr fs2"
  shows "file_content (write_pages fs2 f 1 pages) q
           = (if q = f then Some (render 1 pages) else file_content fs1 q)"
  by (cases "q = f") (simp_all add: file_content_def stat_write_pages stat_open_w [OF assms]
        append_to_def split: option.splits entry.splits)

lemma extract_cases:
  obtains (opened) pages where "extract_text_ignore_overlays parse w p = (Inr pages, w)"
        | (raised) e where "extract_text_ignore_overlays parse w p = (Inl e, w)"
proof (cases "extract_text_ignore_overlays parse w p")
  case (Pair r w1)
  with extract_world [of parse w p] have "w1 = w" by simp
  with Pair opened raised show ?thesis by (cases r) auto
qed

lemma P_raised:
  "extract_text_ignore_overlays parse w p = (Inl e, w) \<Longrightarrow>
   process_pdf parse w p ir outr = (failure p e, w)"
  by (simp add: process_pdf_def)

lemma P_no_text:
  "extract_text_ignore_overlays parse w p = (Inr pages, w) \<Longrightarrow> \<not> any_py pages \<Longrightarrow>
   process_pdf parse w p ir outr = ((p, False, Some ''No extractable text''), w)"
  by (simp add: process_pdf_def)

lemma P_relative:
  "extract_text_ignore_overlays parse w p = (Inr pages, w) \<Longrightarrow> any_py pages \<Longrightarrow>
   relative_to p ir = Inl e \<Longrightarrow>
   process_pdf parse w p ir outr = (failure p e, w)"
  by (simp add: process_pdf_def)

lemma P_mkdir:
  "extract_text_ignore_overlays parse w p = (Inr pages, w) \<Longrightarrow> any_py pages \<Longrightarrow>
   relative_to p ir = Inr rel \<Longrightarrow>
   mkdir_parents (fsys w) (outr @ parent rel) = (Inl e, fs1) \<Longrightarrow>
   process_pdf parse w p ir outr = (failure p e, w\<lparr>fsys := fs1\<rparr>)"
  by (simp add: process_pdf_def Let_def)

lemma P_open:
  "extract_text_ignore_overlays parse w p = (Inr pages, w) \<Longrightarrow> any_py pages \<Longrightarrow>
   relative_to p ir = Inr rel \<Longrightarrow>
   mkdir_parents (fsys w) (outr @ parent rel) = (Inr u, fs1) \<Longrightarrow>
   open_w fs1 (outr @ parent rel @ [stem p @ ''_RECOVERED.txt'']) = Inl e \<Longrightarrow>
   process_pdf parse w p ir outr = (failure p e, w\<lparr>fsys := fs1\<rparr>)"
  by (simp add: process_pdf_def Let_def)

lemma P_written:
  "extract_text_ignore_overlays parse w p = (Inr pages, w) \<Longrightarrow> any_py pages \<Longrightarrow>
   relative_to p ir = Inr rel \<Longrightarrow>
   mkdir_parents (fsys w) (outr @ parent rel) = (Inr u, fs1) \<Longrightarrow>
   open_w fs1 (outr @ parent rel @ [stem p @ ''_RECOVERED.txt'']) = Inr fs2 \<Longrightarrow>
   process_pdf parse w p ir outr =
     ((p, True, None),
      w\<lparr>fsys := write_pages fs2 (outr @ parent rel @ [stem p @ ''_RECOVERED.txt'']) 1 pages\<rparr>)"
  by (simp add: process_pdf_def Let_def)

lemma process_pdf_cases:
  obtains
    (raised) e where
      "extract_text_ignore_overlays parse w p = (Inl e, w)"
      "process_pdf parse w p ir outr = (failure p e, w)"
  | (no_text) pages where
      "extract_text_ignore_overlays parse w p = (Inr pages, w)"
      "\<not> any_py pages"
      "process_pdf parse w p ir outr = ((p, False, Some ''No extractable text''), w)"
  | (relative) pages e where
      "extract_text_ignore_overlays parse w p = (Inr pages, w)"
      "any_py pages"
      "relative_to p ir = Inl e"
      "process_pdf parse w p ir outr = (failure p e, w)"
  | (mkdir) pages rel e fs1 where
      "extract_text_ignore_overlays parse w p = (Inr pages, w)"
      "any_py pages"
      "relative_to p ir = Inr rel"
      "mkdir_parents (fsys w) (outr @ parent rel) = (Inl e, fs1)"
      "process_pdf parse w p ir outr = (failure p e, w\<lparr>fsys := fs1\<rparr>)"
  | (openw) pages rel fs1 e where
      "extract_text_ignore_overlays parse w p = (Inr pages, w)"
      "any_py pages"
      "relative_to p ir = Inr rel"
      "mkdir_parents (fsys w) (outr @ parent rel) = (Inr (), fs1)"
      "open_w fs1 (outr @ parent rel @ [stem p @ ''_RECOVERED.txt'']) = Inl e"
      "process_pdf parse w p ir outr = (failure p e, w\<lparr>fsys := fs1\<rparr>)"
  | (written) pages rel fs1 fs2 where
      "extract_text_ignore_overlays parse w p = (Inr pages, w)"
      "any_py pages"
      "relative_to p ir = Inr rel"
      "mkdir_parents (fsys w) (outr @ parent rel) = (Inr (), fs1)"
      "open_w fs1 (outr @ parent rel @ [stem p @ ''_RECOVERED.txt'']) = Inr fs2"
      "process_pdf parse w p ir outr =
         ((p, True, None),
          w\<lparr>fsys := write_pages fs2 (outr @ parent rel @ [stem p @ ''_RECOVERED.txt'']) 1 pages\<rparr>)"
proof (cases rule: extract_cases [of parse w p])
  case (raised e)
  from this P_raised [OF this, of ir outr] show ?thesis by (rule that(1))
next
  case (opened pages)
  show ?thesis
  proof (cases "any_py pages")
    case False
    from opened False P_no_text [OF opened False, of ir outr] show ?thesis by (rule that(2))
  next
    case True
    show ?thesis
    proof (cases "relative_to p ir")
      case (Inl e)
      from opened True Inl P_relative [OF opened True Inl, of outr] show ?thesis
        by (rule that(3))
    next
      case (Inr rel)
      obtain m fs1 where m: "mkdir_parents (fsys w) (outr @ parent rel) = (m, fs1)"
        by (cases "mkdir_parents (fsys w) (outr @ parent rel)")
      show ?thesis
      proof (cases m)
        case (Inl e)
        note m' = m [unfolded Inl]
        from opened True Inr m' P_mkdir [OF opened True Inr m'] show ?thesis
          by (rule that(4))
      next
        case u: (Inr u)
        have m': "mkdir_parents (fsys w) (outr @ parent rel) = (Inr (), fs1)"
          using m u by simp
        show ?thesis
        proof (cases "open_w fs1 (outr @ parent rel @ [stem p @ ''_RECOVERED.txt''])")
          case (Inl e)
          from opened True Inr m' Inl P_open [OF opened True Inr m' Inl] show ?thesis
            by (rule that(5))
        next
          case fs2: (Inr fs2)
          from opened True Inr m' fs2 P_written [OF opened True Inr m' fs2] show ?thesis
            by (rule that(6))
        qed
      qed
    qed
  qed
qed



section \<open>The concrete scenario, evaluated\<close>

lemma demo_main:
  "main demo_lib demo_world [''in''] [''out''] 3 =
   (0, [''[*] Found 4 PDFs'', ''[*] Threads: 3'', ''[*] Output root: /out'',
        nl @ ''=== SUMMARY ==='', ''Processed: 4'', ''Recovered: 1'', ''Failed: 3'',
        ''[FAIL] /in/b.pdf: No extractable text'',
        ''[FAIL] /in/c.pdf: Failed to open file'',
        ''[FAIL] /in/d.pdf: is no file''],
    \<lparr>fsys = demo_fs @ [([''out''], Directory),
         ([''out'', ''a_RECOVERED.txt''],
          RegFile (nl @ ''--- PAGE 1 ---'' @ nl @ ''CONFIDENTIAL'' @ nl @
                   nl @ ''--- PAGE 2 ---'' @ nl @ nl))],
      open_docs = []\<rparr>)"
  by code_simp

lemma demo_b:
  "process_pdf demo_lib demo_world [''in'', ''b.pdf''] [''in''] [''out'']
     = (([''in'', ''b.pdf''], False, Some ''No extractable text''), demo_world)"
  by code_simp

lemma demo_c:
  "demo_lib (stat (fsys demo_world) [''in'', ''c.pdf'']) = Inl (LibError ''Failed to open file'')"
  by code_simp

section \<open>Failure paths of the per-file task\<close>

lemma failure_not_no_text:
  "is_oserror e \<Longrightarrow> failure p e \<noteq> (p, False, Some ''No extractable text'')"
  using oserror_message [of e] by (simp add: failure_def)

text \<open>
  Claim C10. When the task's result is the failure with reason \<open>No extractable text\<close>, the
  world after the task is the world before it: no directory and no file has been created,
  since the emptiness check comes before \<open>mkdir\<close> and \<open>open\<close>.
\<close>

theorem no_extractable_text_changes_nothing:
  assumes "fst (process_pdf parse w pdf_path input_root output_root)
             = (pdf_path, False, Some ''No extractable text'')"
  shows "snd (process_pdf parse w pdf_path input_root output_root) = w"
proof (cases rule: process_pdf_cases [of parse w pdf_path input_root output_root])
  case (raised e)
  then show ?thesis by simp
next
  case (no_text pages)
  then show ?thesis by simp
next
  case (relative pages e)
  then show ?thesis by simp
next
  case (mkdir pages rel e fs1)
  from mkdir_parents_props [OF mkdir(4)] have "is_oserror e" by simp
  from failure_not_no_text [OF this, of pdf_path] assms mkdir(5) show ?thesis by simp
next
  case (openw pages rel fs1 e)
  from open_w_Inl [OF openw(5)] have "is_oserror e" .
  from failure_not_no_text [OF this, of pdf_path] assms openw(6) show ?thesis by simp
next
  case (written pages rel fs1 fs2)
  with assms show ?thesis by simp
qed

theorem no_extractable_text_changes_nothing_witness:
  "fst (process_pdf demo_lib demo_world [''in'', ''b.pdf''] [''in''] [''out''])
     = ([''in'', ''b.pdf''], False, Some ''No extractable text'')
   \<and> snd (process_pdf demo_lib demo_world [''in'', ''b.pdf''] [''in''] [''out'']) = demo_world"
proof -
  have h: "fst (process_pdf demo_lib demo_world [''in'', ''b.pdf''] [''in''] [''out''])
             = ([''in'', ''b.pdf''], False, Some ''No extractable text'')"
    by code_simp
  from no_extractable_text_changes_nothing [OF h] h show ?thesis by simp
qed



section \<open>The batch dispatcher\<close>






lemma mkdir_parents_keeps_files:
  "mkdir_parents fs p = (r, fs') \<Longrightarrow> file_content fs' = file_content fs"
  using mkdir_parents_props [of fs p r fs'] dirs_added_file_content [of fs fs'] by simp

text \<open>
  Claim C9, as the code has it. \<open>main\<close> creates the output root before it looks for PDFs.
  When that succeeds and no PDF is found, \<open>main\<close> prints \<open>No PDFs found.\<close> and nothing
  else, ends with status 0, and has run no task: every file has the content it had, and the
  only change to the filesystem is the directories made for the output root.
\<close>

theorem no_pdfs_found_writes_no_file:
  assumes "mkdir_parents (fsys w) output_root = (Inr (), fs1)"
    and "find_pdfs fs1 input_root = []"
  shows "main parse w input_root output_root threads = (0, [''No PDFs found.''], w\<lparr>fsys := fs1\<rparr>)
         \<and> file_content fs1 = file_content (fsys w)
         \<and> dirs_added (fsys w) fs1"
  using assms mkdir_parents_keeps_files [OF assms(1)] mkdir_parents_props [OF assms(1)]
  by (simp add: main_def Let_def)

theorem no_pdfs_found_writes_no_file_witness:
  "mkdir_parents (fsys empty_world) [''out''] = (Inr (), [([''out''], Directory)])
   \<and> find_pdfs [([''out''], Directory)] [''in''] = []
   \<and> main demo_lib empty_world [''in''] [''out''] 3
       = (0, [''No PDFs found.''], empty_world\<lparr>fsys := [([''out''], Directory)]\<rparr>)"
proof -
  have h1: "mkdir_parents (fsys empty_world) [''out''] = (Inr (), [([''out''], Directory)])"
    by code_simp
  have h2: "find_pdfs [([''out''], Directory)] [''in''] = []"
    by code_simp
  from no_pdfs_found_writes_no_file [OF h1 h2, of demo_lib 3] h1 h2 show ?thesis by simp
qed

text \<open>
  The claim as stated fails: with an empty filesystem, no PDF is found, and yet the
  filesystem after the run holds the output root directory.
\<close>

theorem no_pdfs_found_counterexample:
  "fst (main demo_lib empty_world [''in''] [''out''] 3) = 0
   \<and> fst (snd (main demo_lib empty_world [''in''] [''out''] 3)) = [''No PDFs found.'']
   \<and> fsys (snd (snd (main demo_lib empty_world [''in''] [''out''] 3))) \<noteq> fsys empty_world"
  by code_simp

end
